theory Spec2Isabelle
  imports Complex_Main
begin

section \<open>Digital gates of qcodes\_measurements (device/digital.py)\<close>

text \<open>
  The module puts two-level "digital" gates on top of analog voltage sources. The
  embedding follows the Python source function by function. Voltages are Python numbers;
  the source only subtracts, takes absolute values and compares them, and they are modelled
  as exact reals. Every object the source mutates in place is passed in and returned.
\<close>

subsection \<open>DigitalMode\<close>

datatype DigitalMode = IN | OUT | PROBE_OUT | HIGH | LOW | GND

text \<open>
  Python does not type the mode arguments: a caller can hand any value to the io\_mode
  parameter, to the handler and to the constructor. \<open>Member m\<close> stands for a value
  equal to the enumeration member \<open>m\<close>, \<open>NonMember x\<close> for any other value
  (tagged by some text \<open>x\<close>). The source only ever compares modes with \<open>==\<close> and
  \<open>in\<close>, which is equality of these values.
\<close>

datatype mode_value = Member DigitalMode | NonMember string

definition OUTPUT_MODES :: "mode_value list" where
  "OUTPUT_MODES = [Member OUT, Member PROBE_OUT, Member HIGH, Member LOW]"

definition INPUT_MODES :: "mode_value list" where
  "INPUT_MODES = [Member IN, Member GND]"

subsection \<open>Voltage sources\<close>

text \<open>
  A gate holds a reference to its source (an instrument channel); two gates may hold the
  same one. The sources' voltages form a store indexed by the reference:
  \<open>self.source.voltage()\<close> reads it, \<open>self.source.voltage(x)\<close> writes it.
\<close>

type_synonym source_ref = nat
type_synonym sources = "source_ref \<Rightarrow> real"

definition all_at :: "real \<Rightarrow> sources" where
  "all_at x = (\<lambda>_. x)"

subsection \<open>DigitalGate\<close>

record DigitalGate =
  source :: source_ref
  v_high :: real
  v_low :: real
  v_hist :: real
  io_mode :: mode_value
  lock :: bool

text \<open>\<open>get_raw\<close>: 1 and 0 are the logical levels, -1 is the undefined reading.\<close>

definition get_raw :: "DigitalGate \<Rightarrow> sources \<Rightarrow> int" where
  "get_raw g s =
     (let voltage = s (source g) in
      if \<bar>voltage - v_high g\<bar> < v_hist g then 1
      else if \<bar>voltage - v_low g\<bar> < v_hist g then 0
      else - 1)"

text \<open>
  \<open>set_raw\<close>: the value is a Python bool or number (\<open>True\<close> is 1, \<open>False\<close> is 0);
  \<open>if value:\<close> tests that it is not zero.
\<close>

definition set_raw :: "DigitalGate \<Rightarrow> int \<Rightarrow> sources \<Rightarrow> sources" where
  "set_raw g val s =
     (if lock g then s
      else if val \<noteq> 0 then s(source g := v_high g)
      else s(source g := v_low g))"

text \<open>
  The property setters. \<open>self(self())\<close> gets the gate's value and sets it again; the
  values \<open>get_raw\<close> returns are numbers, which the gate's own validator accepts, so the
  call is \<open>set_raw\<close> on the result of \<open>get_raw\<close>.
\<close>

definition set_v_high :: "real \<Rightarrow> DigitalGate \<times> sources \<Rightarrow> DigitalGate \<times> sources" where
  "set_v_high val gs =
     (let g1 = (fst gs)\<lparr>v_high := val\<rparr>;
          saved = lock g1;
          g2 = g1\<lparr>lock := False\<rparr>;
          s' = (if io_mode g2 \<in> set OUTPUT_MODES
                then set_raw g2 (get_raw g2 (snd gs)) (snd gs) else snd gs)
      in (g2\<lparr>lock := saved\<rparr>, s'))"

definition set_v_low :: "real \<Rightarrow> DigitalGate \<times> sources \<Rightarrow> DigitalGate \<times> sources" where
  "set_v_low val gs =
     (let g1 = (fst gs)\<lparr>v_low := val\<rparr>;
          saved = lock g1;
          g2 = g1\<lparr>lock := False\<rparr>;
          s' = (if io_mode g2 \<in> set OUTPUT_MODES
                then set_raw g2 (get_raw g2 (snd gs)) (snd gs) else snd gs)
      in (g2\<lparr>lock := saved\<rparr>, s'))"

subsection \<open>Errors\<close>

text \<open>
  A Python exception leaves every mutation made before it in place, so a failing operation
  returns the error together with the state it was raised in.
  \<open>ValueError\<close> is what a parameter's validator raises (the invalid-argument kind);
  \<open>ChannelError c\<close> is a failure of the channel's capability \<open>c\<close>.
\<close>

datatype capability = Open | Dac | Probe | Ground

datatype error = ValueError | ChannelError capability

type_synonym 's result = "(error \<times> 's) + 's"

definition and_then :: "'s result \<Rightarrow> ('s \<Rightarrow> 's result) \<Rightarrow> 's result" where
  "and_then r f = (case r of Inl e \<Rightarrow> Inl e | Inr s \<Rightarrow> f s)"

subsection \<open>Writing through the channel's validator\<close>

text \<open>
  The gate functions above describe a gate on a source that takes every voltage. The
  channel behind a wrapper is the gate's source, and its voltage parameter has a validator
  (\<open>self.parent.voltage.vals\<close>, a parameter of the model): \<open>self.source.voltage(x)\<close>
  raises the invalid-argument error, with nothing written, when the validator refuses
  \<open>x\<close>. The functions below are \<open>set_raw\<close> and the two setters once more, with the
  validator \<open>vals\<close> of the source. When the write inside a setter raises, the level has
  been stored and the lock has been cleared, and the line that restores the lock is not
  reached.
\<close>

definition source_voltage_set ::
  "(real \<Rightarrow> bool) \<Rightarrow> source_ref \<Rightarrow> real \<Rightarrow> sources \<Rightarrow> sources result" where
  "source_voltage_set vals r x s = (if vals x then Inr (s(r := x)) else Inl (ValueError, s))"

definition set_raw_vals ::
  "(real \<Rightarrow> bool) \<Rightarrow> DigitalGate \<Rightarrow> int \<Rightarrow> sources \<Rightarrow> sources result" where
  "set_raw_vals vals g val s =
     (if lock g then Inr s
      else if val \<noteq> 0 then source_voltage_set vals (source g) (v_high g) s
      else source_voltage_set vals (source g) (v_low g) s)"

definition set_v_high_vals ::
  "(real \<Rightarrow> bool) \<Rightarrow> real \<Rightarrow> DigitalGate \<times> sources \<Rightarrow> (DigitalGate \<times> sources) result" where
  "set_v_high_vals vals val gs =
     (let g1 = (fst gs)\<lparr>v_high := val\<rparr>;
          saved = lock g1;
          g2 = g1\<lparr>lock := False\<rparr>
      in if io_mode g2 \<in> set OUTPUT_MODES
         then (case set_raw_vals vals g2 (get_raw g2 (snd gs)) (snd gs) of
                 Inl (e, s') \<Rightarrow> Inl (e, (g2, s'))
               | Inr s' \<Rightarrow> Inr (g2\<lparr>lock := saved\<rparr>, s'))
         else Inr (g2\<lparr>lock := saved\<rparr>, snd gs))"

definition set_v_low_vals ::
  "(real \<Rightarrow> bool) \<Rightarrow> real \<Rightarrow> DigitalGate \<times> sources \<Rightarrow> (DigitalGate \<times> sources) result" where
  "set_v_low_vals vals val gs =
     (let g1 = (fst gs)\<lparr>v_low := val\<rparr>;
          saved = lock g1;
          g2 = g1\<lparr>lock := False\<rparr>
      in if io_mode g2 \<in> set OUTPUT_MODES
         then (case set_raw_vals vals g2 (get_raw g2 (snd gs)) (snd gs) of
                 Inl (e, s') \<Rightarrow> Inl (e, (g2, s'))
               | Inr s' \<Rightarrow> Inr (g2\<lparr>lock := saved\<rparr>, s'))
         else Inr (g2\<lparr>lock := saved\<rparr>, snd gs))"

subsection \<open>DigitalGateWrapper\<close>

text \<open>
  The wrapper holds the gate and stands in front of the channel. Of the channel the source
  uses two things that are not in this file: the validator of its voltage parameter
  (\<open>self.parent.voltage.vals\<close>) and the capability methods \<open>open\<close>, \<open>dac\<close>,
  \<open>probe\<close>, \<open>ground\<close> inherited from the generic gate wrapper. Both are parameters
  of the model: \<open>voltage_vals\<close> says which voltages the validator accepts, \<open>cap_ok\<close>
  says which capability calls return normally (the others raise). \<open>trace\<close> records, in
  order, the steps the io\_mode handler has completed.
\<close>

datatype event = LockSet bool | CapCall capability | OutSet int | ModeStored mode_value

record DigitalGateWrapper =
  gate :: DigitalGate
  voltage_vals :: "real \<Rightarrow> bool"
  cap_ok :: "capability \<Rightarrow> bool"
  trace :: "event list"

type_synonym wrapped = "DigitalGateWrapper \<times> sources"

text \<open>A numeric validator with bounds, as instrument channels have on their voltage.\<close>

definition Numbers :: "real \<Rightarrow> real \<Rightarrow> real \<Rightarrow> bool" where
  "Numbers min_value max_value x = (min_value \<le> x \<and> x \<le> max_value)"

text \<open>\<open>self.lock(b)\<close>: the lock parameter sets the gate's attribute.\<close>

definition lock_set :: "bool \<Rightarrow> wrapped \<Rightarrow> wrapped" where
  "lock_set b ws =
     ((fst ws)\<lparr>gate := (gate (fst ws))\<lparr>lock := b\<rparr>, trace := trace (fst ws) @ [LockSet b]\<rparr>,
      snd ws)"

text \<open>
  \<open>self.out(v)\<close>: the out parameter sets the gate, which is \<open>set_raw\<close> writing
  through the channel's validator. The values 1 and 0 pass the gate's own validator.
\<close>

definition out_set :: "int \<Rightarrow> wrapped \<Rightarrow> wrapped result" where
  "out_set v ws =
     (case set_raw_vals (voltage_vals (fst ws)) (gate (fst ws)) v (snd ws) of
        Inl (e, s') \<Rightarrow> Inl (e, (fst ws, s'))
      | Inr s' \<Rightarrow> Inr ((fst ws)\<lparr>trace := trace (fst ws) @ [OutSet v]\<rparr>, s'))"

text \<open>\<open>self.open()\<close>, \<open>self.dac()\<close>, \<open>self.probe()\<close>, \<open>self.ground()\<close>.\<close>

definition cap_call :: "capability \<Rightarrow> wrapped \<Rightarrow> wrapped result" where
  "cap_call c ws =
     (if cap_ok (fst ws) c
      then Inr ((fst ws)\<lparr>trace := trace (fst ws) @ [CapCall c]\<rparr>, snd ws)
      else Inl (ChannelError c, ws))"

text \<open>\<open>self.gate.io_mode = val\<close>\<close>

definition store_io_mode :: "mode_value \<Rightarrow> wrapped \<Rightarrow> wrapped" where
  "store_io_mode val ws =
     ((fst ws)\<lparr>gate := (gate (fst ws))\<lparr>io_mode := val\<rparr>,
               trace := trace (fst ws) @ [ModeStored val]\<rparr>,
      snd ws)"

text \<open>\<open>_set_io_mode\<close>\<close>

definition set_io_mode :: "mode_value \<Rightarrow> wrapped \<Rightarrow> wrapped result" where
  "set_io_mode val ws =
     and_then (Inr (lock_set False ws)) (\<lambda>ws.
     and_then
       (if val = Member IN then cap_call Open ws
        else if val = Member OUT then cap_call Dac ws
        else if val = Member PROBE_OUT then cap_call Probe ws
        else if val = Member HIGH then
          and_then (cap_call Dac ws) (\<lambda>ws.
          and_then (out_set 1 ws) (\<lambda>ws. Inr (lock_set True ws)))
        else if val = Member LOW then
          and_then (cap_call Dac ws) (\<lambda>ws.
          and_then (out_set 0 ws) (\<lambda>ws. Inr (lock_set True ws)))
        else if val = Member GND then cap_call Ground ws
        else Inr ws)
       (\<lambda>ws. Inr (store_io_mode val ws)))"

text \<open>
  Modelled from the spec: the parameter framework that runs a parameter's \<open>vals\<close> before
  its \<open>set_cmd\<close> is not part of the source file. The io\_mode parameter is declared with
  \<open>vals=Enum(*DigitalMode)\<close> and \<open>set_cmd=self._set_io_mode\<close>; by the spec an
  unrecognised value is rejected against the closed enumeration, with the invalid-argument
  error, before the handler runs.
\<close>

definition io_mode_vals :: "mode_value \<Rightarrow> bool" where
  "io_mode_vals val = (val \<in> set (map Member [IN, OUT, PROBE_OUT, HIGH, LOW, GND]))"

definition io_mode_set :: "mode_value \<Rightarrow> wrapped \<Rightarrow> wrapped result" where
  "io_mode_set val ws =
     (if io_mode_vals val then set_io_mode val ws else Inl (ValueError, ws))"

text \<open>
  The wrapper's \<open>v_high\<close> and \<open>v_low\<close> parameters: \<open>vals=self.parent.voltage.vals\<close>,
  \<open>set_cmd\<close> assigns the gate's property, which runs the gate's setter. As for io\_mode,
  the value is checked against \<open>vals\<close> before \<open>set_cmd\<close> runs, and a value the
  channel's validator refuses raises the invalid-argument error. The setter then writes
  through the same validator, and a failure of that write leaves the gate as the setter
  had it at that point.
\<close>

definition v_high_set :: "real \<Rightarrow> wrapped \<Rightarrow> wrapped result" where
  "v_high_set val ws =
     (if voltage_vals (fst ws) val
      then (case set_v_high_vals (voltage_vals (fst ws)) val (gate (fst ws), snd ws) of
              Inl (e, (g', s')) \<Rightarrow> Inl (e, ((fst ws)\<lparr>gate := g'\<rparr>, s'))
            | Inr (g', s') \<Rightarrow> Inr ((fst ws)\<lparr>gate := g'\<rparr>, s'))
      else Inl (ValueError, ws))"

definition v_low_set :: "real \<Rightarrow> wrapped \<Rightarrow> wrapped result" where
  "v_low_set val ws =
     (if voltage_vals (fst ws) val
      then (case set_v_low_vals (voltage_vals (fst ws)) val (gate (fst ws), snd ws) of
              Inl (e, (g', s')) \<Rightarrow> Inl (e, ((fst ws)\<lparr>gate := g'\<rparr>, s'))
            | Inr (g', s') \<Rightarrow> Inr ((fst ws)\<lparr>gate := g'\<rparr>, s'))
      else Inl (ValueError, ws))"

subsection \<open>DigitalDevice\<close>

record DigitalDevice =
  digital_gates :: "DigitalGateWrapper list"
  dev_v_high :: real
  dev_v_low :: real

text \<open>
  The loops \<open>for gate in self.digital_gates: gate.v_high(new_val)\<close>. The wrappers are
  updated in place, so when one raises the earlier ones stay updated and the later ones
  are untouched.
\<close>

fun each_v_high ::
  "real \<Rightarrow> DigitalGateWrapper list \<Rightarrow> sources \<Rightarrow> (DigitalGateWrapper list \<times> sources) result"
where
  "each_v_high new_val [] s = Inr ([], s)"
| "each_v_high new_val (w # ws) s =
     (case v_high_set new_val (w, s) of
        Inl (e, (w', s')) \<Rightarrow> Inl (e, (w' # ws, s'))
      | Inr (w', s') \<Rightarrow>
          (case each_v_high new_val ws s' of
             Inl (e, (ws', s'')) \<Rightarrow> Inl (e, (w' # ws', s''))
           | Inr (ws', s'') \<Rightarrow> Inr (w' # ws', s'')))"

fun each_v_low ::
  "real \<Rightarrow> DigitalGateWrapper list \<Rightarrow> sources \<Rightarrow> (DigitalGateWrapper list \<times> sources) result"
where
  "each_v_low new_val [] s = Inr ([], s)"
| "each_v_low new_val (w # ws) s =
     (case v_low_set new_val (w, s) of
        Inl (e, (w', s')) \<Rightarrow> Inl (e, (w' # ws, s'))
      | Inr (w', s') \<Rightarrow>
          (case each_v_low new_val ws s' of
             Inl (e, (ws', s'')) \<Rightarrow> Inl (e, (w' # ws', s''))
           | Inr (ws', s'') \<Rightarrow> Inr (w' # ws', s'')))"

text \<open>\<open>_update_vhigh\<close> and \<open>_update_vlow\<close>\<close>

definition update_vhigh :: "real \<Rightarrow> DigitalDevice \<times> sources \<Rightarrow> (DigitalDevice \<times> sources) result" where
  "update_vhigh new_val ds =
     (case each_v_high new_val (digital_gates (fst ds)) (snd ds) of
        Inl (e, (ws', s')) \<Rightarrow> Inl (e, ((fst ds)\<lparr>digital_gates := ws'\<rparr>, s'))
      | Inr (ws', s') \<Rightarrow> Inr ((fst ds)\<lparr>digital_gates := ws', dev_v_high := new_val\<rparr>, s'))"

definition update_vlow :: "real \<Rightarrow> DigitalDevice \<times> sources \<Rightarrow> (DigitalDevice \<times> sources) result" where
  "update_vlow new_val ds =
     (case each_v_low new_val (digital_gates (fst ds)) (snd ds) of
        Inl (e, (ws', s')) \<Rightarrow> Inl (e, ((fst ds)\<lparr>digital_gates := ws'\<rparr>, s'))
      | Inr (ws', s') \<Rightarrow> Inr ((fst ds)\<lparr>digital_gates := ws', dev_v_low := new_val\<rparr>, s'))"

subsection \<open>The transition table and the fan-out, in the words of the specification\<close>

text \<open>
  The capability each mode calls and the steps each mode dispatches, as the specification
  lists them (section 4.2); the handler above is compared with them.
\<close>

fun spec_capability :: "DigitalMode \<Rightarrow> capability" where
  "spec_capability IN = Open"
| "spec_capability OUT = Dac"
| "spec_capability PROBE_OUT = Probe"
| "spec_capability HIGH = Dac"
| "spec_capability LOW = Dac"
| "spec_capability GND = Ground"

fun spec_dispatch :: "DigitalMode \<Rightarrow> event list" where
  "spec_dispatch IN = [CapCall Open]"
| "spec_dispatch OUT = [CapCall Dac]"
| "spec_dispatch PROBE_OUT = [CapCall Probe]"
| "spec_dispatch HIGH = [CapCall Dac, OutSet 1, LockSet True]"
| "spec_dispatch LOW = [CapCall Dac, OutSet 0, LockSet True]"
| "spec_dispatch GND = [CapCall Ground]"

text \<open>
  The device-wide fan-out as the specification words it (section 4.3): go through the
  registered wrappers in registration order and run each gate's own setter, one after the
  other on the same sources.
\<close>

fun spec_fanout_high ::
  "real \<Rightarrow> DigitalGateWrapper list \<Rightarrow> sources \<Rightarrow> DigitalGateWrapper list \<times> sources"
where
  "spec_fanout_high X [] s = ([], s)"
| "spec_fanout_high X (w # ws) s =
     (let (g', s') = set_v_high X (gate w, s);
          (ws', s'') = spec_fanout_high X ws s'
      in (w\<lparr>gate := g'\<rparr> # ws', s''))"

fun spec_fanout_low ::
  "real \<Rightarrow> DigitalGateWrapper list \<Rightarrow> sources \<Rightarrow> DigitalGateWrapper list \<times> sources"
where
  "spec_fanout_low X [] s = ([], s)"
| "spec_fanout_low X (w # ws) s =
     (let (g', s') = set_v_low X (gate w, s);
          (ws', s'') = spec_fanout_low X ws s'
      in (w\<lparr>gate := g'\<rparr> # ws', s''))"

subsection \<open>Concrete gates, wrappers and devices\<close>

text \<open>
  The gate of the specification's example: levels 1.0 and 0.0, hysteresis 0.2, output mode,
  unlocked, on source 0. Its wrapper sits on a channel that accepts voltages from -5 to 5
  and whose capability calls all succeed; \<open>dac_broken\<close> is a channel whose \<open>dac\<close>
  fails, \<open>all_broken\<close> one on which every capability fails. The device has two such gates, the second one locked and on source 1.
  \<open>narrow_wrapper\<close> has a gate with \<open>v_high\<close> 1.8 on a channel that accepts voltages
  from -1 to 1 only.
\<close>

definition demo_gate :: DigitalGate where
  "demo_gate =
     \<lparr>source = 0, v_high = 1, v_low = 0, v_hist = 0.2, io_mode = Member OUT, lock = False\<rparr>"

definition reliable :: "capability \<Rightarrow> bool" where
  "reliable c = True"

definition dac_broken :: "capability \<Rightarrow> bool" where
  "dac_broken c = (c \<noteq> Dac)"

definition all_broken :: "capability \<Rightarrow> bool" where
  "all_broken c = False"

definition demo_wrapper :: DigitalGateWrapper where
  "demo_wrapper =
     \<lparr>gate = demo_gate, voltage_vals = Numbers (- 5) 5, cap_ok = reliable, trace = []\<rparr>"

definition narrow_wrapper :: DigitalGateWrapper where
  "narrow_wrapper =
     \<lparr>gate = demo_gate\<lparr>v_high := 1.8\<rparr>, voltage_vals = Numbers (- 1) 1, cap_ok = reliable,
      trace = []\<rparr>"

definition demo_device :: DigitalDevice where
  "demo_device =
     \<lparr>digital_gates =
        [demo_wrapper, demo_wrapper\<lparr>gate := demo_gate\<lparr>source := 1, lock := True\<rparr>\<rparr>],
      dev_v_high = 1, dev_v_low = 0\<rparr>"

section \<open>Properties\<close>

subsection \<open>Reading and writing a gate\<close>

text \<open>
  C2. For every gate and every source voltage, \<open>get_raw\<close> returns 1 (HIGH) when the
  voltage is within the hysteresis of \<open>v_high\<close>; otherwise 0 (LOW) when it is within the
  hysteresis of \<open>v_low\<close>; otherwise -1 (UNDEFINED). The HIGH test comes first, so the first
  line also covers a voltage within the hysteresis of both levels. With levels 1.0 and 0.0
  and hysteresis 0.2, the voltage 0.95 reads HIGH and 0.5 reads UNDEFINED.
\<close>

theorem get_raw_tristate:
  "(\<bar>s (source g) - v_high g\<bar> < v_hist g \<longrightarrow> get_raw g s = 1) \<and>
   (\<not> \<bar>s (source g) - v_high g\<bar> < v_hist g \<and> \<bar>s (source g) - v_low g\<bar> < v_hist g
      \<longrightarrow> get_raw g s = 0) \<and>
   (\<not> \<bar>s (source g) - v_high g\<bar> < v_hist g \<and> \<not> \<bar>s (source g) - v_low g\<bar> < v_hist g
      \<longrightarrow> get_raw g s = - 1) \<and>
   (v_high g = 1 \<and> v_low g = 0 \<and> v_hist g = 0.2 \<and> s (source g) = 0.95
      \<longrightarrow> get_raw g s = 1) \<and>
   (v_high g = 1 \<and> v_low g = 0 \<and> v_hist g = 0.2 \<and> s (source g) = 0.5
      \<longrightarrow> get_raw g s = - 1)"
  by (simp add: get_raw_def Let_def)

text \<open>
  The example gate at 0.95, 0.5 and 0.1 volts, and a gate whose levels 1.0 and 0.8 are both
  within the hysteresis of 0.9 volts.
\<close>

theorem get_raw_tristate_witness:
  "get_raw demo_gate (all_at 0.95) = 1 \<and> get_raw demo_gate (all_at 0.5) = - 1 \<and>
   get_raw demo_gate (all_at 0.1) = 0 \<and>
   get_raw (demo_gate\<lparr>v_low := 0.8\<rparr>) (all_at 0.9) = 1"
  using get_raw_tristate [of "all_at 0.95" demo_gate]
        get_raw_tristate [of "all_at 0.5" demo_gate]
        get_raw_tristate [of "all_at 0.1" demo_gate]
        get_raw_tristate [of "all_at 0.9" "demo_gate\<lparr>v_low := 0.8\<rparr>"]
  by (simp add: demo_gate_def all_at_def)






subsection \<open>Changing a level of a gate\<close>

text \<open>
  C9. For every gate whose io\_mode is not an output mode, setting \<open>v_high\<close> (or
  \<open>v_low\<close>) changes the stored level and nothing else: the sources are returned as they
  were, and the lock, which the setter clears on the way, is back at its value from before
  the call.
\<close>

theorem input_mode_setters_frame:
  assumes "io_mode g \<notin> set OUTPUT_MODES"
  shows "set_v_high val (g, s) = (g\<lparr>v_high := val\<rparr>, s) \<and>
         set_v_low val (g, s) = (g\<lparr>v_low := val\<rparr>, s) \<and>
         lock (fst (set_v_high val (g, s))) = lock g \<and>
         lock (fst (set_v_low val (g, s))) = lock g"
  using assms by (simp add: set_v_high_def set_v_low_def Let_def)

theorem input_mode_setters_frame_witness:
  "io_mode (demo_gate\<lparr>io_mode := Member GND, lock := True\<rparr>) \<notin> set OUTPUT_MODES \<and>
   set_v_high 3 (demo_gate\<lparr>io_mode := Member GND, lock := True\<rparr>, all_at 0.5) =
     (demo_gate\<lparr>v_high := 3, io_mode := Member GND, lock := True\<rparr>, all_at 0.5) \<and>
   set_v_low 3 (demo_gate\<lparr>io_mode := Member GND, lock := True\<rparr>, all_at 0.5) =
     (demo_gate\<lparr>v_low := 3, io_mode := Member GND, lock := True\<rparr>, all_at 0.5)"
  using input_mode_setters_frame
          [of "demo_gate\<lparr>io_mode := Member GND, lock := True\<rparr>" 3 "all_at 0.5"]
  by (simp add: demo_gate_def OUTPUT_MODES_def)

text \<open>
  C5. The claim is that changing a level of a gate in an output mode writes the gate's
  current logical value again at the new level. The setters store the new level first and
  read the gate afterwards, against the new level. The example gate at 0 volts reads LOW;
  lowering \<open>v_low\<close> to -0.5 makes the read inside the setter UNDEFINED, which
  \<open>set_raw\<close> takes as true: the source ends at \<open>v_high\<close> and the gate reads HIGH.
\<close>

theorem set_v_low_flips_low_gate:
  "io_mode demo_gate \<in> set OUTPUT_MODES \<and> get_raw demo_gate (all_at 0) = 0 \<and>
   set_v_low (- 0.5) (demo_gate, all_at 0) = (demo_gate\<lparr>v_low := - 0.5\<rparr>, (all_at 0)(0 := 1)) \<and>
   get_raw (demo_gate\<lparr>v_low := - 0.5\<rparr>) ((all_at 0)(0 := 1)) = 1"
  by (simp add: set_v_low_def get_raw_def set_raw_def demo_gate_def OUTPUT_MODES_def
        all_at_def Let_def)




subsection \<open>Gates behind a validator\<close>

text \<open>
  With a validator that accepts the level written, the functions with a validator return
  normally what the gate functions return.
\<close>

lemma set_raw_vals_accepted:
  "lock g \<or> vals (if val \<noteq> 0 then v_high g else v_low g) \<Longrightarrow>
   set_raw_vals vals g val s = Inr (set_raw g val s)"
  by (cases "val = 0") (auto simp add: set_raw_vals_def set_raw_def source_voltage_set_def)

lemma set_raw_vals_refused:
  "\<not> lock g \<Longrightarrow> \<not> vals (if val \<noteq> 0 then v_high g else v_low g) \<Longrightarrow>
   set_raw_vals vals g val s = Inl (ValueError, s)"
  by (cases "val = 0") (simp_all add: set_raw_vals_def source_voltage_set_def)

lemma set_v_high_vals_accepted:
  assumes "vals val" and "vals (v_low g)"
  shows "set_v_high_vals vals val (g, s) = Inr (set_v_high val (g, s))"
proof -
  have "set_raw_vals vals (g\<lparr>v_high := val, lock := False\<rparr>) x s =
          Inr (set_raw (g\<lparr>v_high := val, lock := False\<rparr>) x s)" for x
    using assms by (intro set_raw_vals_accepted) simp
  then show ?thesis
    by (simp add: set_v_high_vals_def set_v_high_def Let_def)
qed

lemma set_v_low_vals_accepted:
  assumes "vals val" and "vals (v_high g)"
  shows "set_v_low_vals vals val (g, s) = Inr (set_v_low val (g, s))"
proof -
  have "set_raw_vals vals (g\<lparr>v_low := val, lock := False\<rparr>) x s =
          Inr (set_raw (g\<lparr>v_low := val, lock := False\<rparr>) x s)" for x
    using assms by (intro set_raw_vals_accepted) simp
  then show ?thesis
    by (simp add: set_v_low_vals_def set_v_low_def Let_def)
qed

subsection \<open>The io\_mode transition\<close>

lemma and_then_Inr: "and_then (Inr x) f = f x"
  by (simp add: and_then_def)

lemma and_then_Inl: "and_then (Inl e) f = Inl e"
  by (simp add: and_then_def)

text \<open>
  C1, amended. For every mode \<open>m\<close> of the enumeration, on a channel that carries out the
  mode's capability call and, for HIGH and LOW, whose validator accepts the level to be
  written (\<open>v_high\<close> for HIGH, \<open>v_low\<close> for LOW), setting io\_mode to \<open>m\<close> through
  the wrapper returns normally and has done, in this order: cleared the lock; the mode's steps
  as the specification lists them (IN: open; OUT: dac; PROBE\_OUT: probe; HIGH: dac, write
  1, lock; LOW: dac, write 0, lock; GND: ground); stored \<open>m\<close> as the gate's io\_mode.
  The gate ends locked exactly for HIGH and LOW, with its source at \<open>v_high\<close> and
  \<open>v_low\<close> respectively; for the other modes the sources are untouched.
\<close>

theorem io_mode_set_dispatch:
  assumes "cap_ok w (spec_capability m)"
    and "m = HIGH \<longrightarrow> voltage_vals w (v_high (gate w))"
    and "m = LOW \<longrightarrow> voltage_vals w (v_low (gate w))"
  shows "io_mode_set (Member m) (w, s) =
     Inr (w\<lparr>gate := (gate w)\<lparr>lock := (m = HIGH \<or> m = LOW), io_mode := Member m\<rparr>,
            trace := trace w @ [LockSet False] @ spec_dispatch m @ [ModeStored (Member m)]\<rparr>,
          if m = HIGH then s(source (gate w) := v_high (gate w))
          else if m = LOW then s(source (gate w) := v_low (gate w))
          else s)"
  using assms
  by (cases m)
     (simp_all add: io_mode_set_def io_mode_vals_def set_io_mode_def and_then_Inr
        cap_call_def lock_set_def out_set_def store_io_mode_def set_raw_vals_def
        source_voltage_set_def)

text \<open>A locked gate at 0 volts is set to HIGH, and the example gate to IN and to LOW.\<close>

theorem io_mode_set_dispatch_witness:
  "cap_ok demo_wrapper (spec_capability HIGH) \<and>
   voltage_vals demo_wrapper (v_high demo_gate) \<and>
   io_mode_set (Member HIGH) (demo_wrapper\<lparr>gate := demo_gate\<lparr>lock := True\<rparr>\<rparr>, all_at 0) =
     Inr (demo_wrapper\<lparr>gate := demo_gate\<lparr>io_mode := Member HIGH, lock := True\<rparr>,
            trace := [LockSet False, CapCall Dac, OutSet 1, LockSet True,
                      ModeStored (Member HIGH)]\<rparr>,
          (all_at 0)(0 := 1)) \<and>
   cap_ok demo_wrapper (spec_capability IN) \<and>
   io_mode_set (Member IN) (demo_wrapper, all_at 0) =
     Inr (demo_wrapper\<lparr>gate := demo_gate\<lparr>io_mode := Member IN\<rparr>,
            trace := [LockSet False, CapCall Open, ModeStored (Member IN)]\<rparr>,
          all_at 0) \<and>
   cap_ok demo_wrapper (spec_capability LOW) \<and>
   voltage_vals demo_wrapper (v_low demo_gate) \<and>
   io_mode_set (Member LOW) (demo_wrapper, all_at 1) =
     Inr (demo_wrapper\<lparr>gate := demo_gate\<lparr>io_mode := Member LOW, lock := True\<rparr>,
            trace := [LockSet False, CapCall Dac, OutSet 0, LockSet True,
                      ModeStored (Member LOW)]\<rparr>,
          (all_at 1)(0 := 0))"
  using io_mode_set_dispatch [of "demo_wrapper\<lparr>gate := demo_gate\<lparr>lock := True\<rparr>\<rparr>" HIGH "all_at 0"]
        io_mode_set_dispatch [of demo_wrapper IN "all_at 0"]
        io_mode_set_dispatch [of demo_wrapper LOW "all_at 1"]
  by (simp add: demo_wrapper_def demo_gate_def reliable_def Numbers_def)

text \<open>
  C1 as stated speaks of every transition. Setting HIGH on the gate with \<open>v_high\<close> 1.8
  behind the channel that accepts -1 to 1 raises the invalid-argument error at the write:
  \<open>dac\<close> has been called, the lock is cleared, the source is untouched and the mode is
  not stored. Setting OUT on a channel whose \<open>dac\<close> fails raises at the capability call,
  with the lock cleared and the mode not stored.
\<close>

theorem io_mode_set_not_stored:
  "io_mode_set (Member HIGH) (narrow_wrapper, all_at 0) =
     Inl (ValueError,
          (narrow_wrapper\<lparr>trace := [LockSet False, CapCall Dac]\<rparr>, all_at 0)) \<and>
   io_mode (gate narrow_wrapper) = Member OUT \<and>
   io_mode_set (Member IN) (demo_wrapper\<lparr>cap_ok := all_broken\<rparr>, all_at 0) =
     Inl (ChannelError Open,
          (demo_wrapper\<lparr>cap_ok := all_broken, trace := [LockSet False]\<rparr>, all_at 0)) \<and>
   io_mode (gate demo_wrapper) = Member OUT"
  by (simp add: io_mode_set_def io_mode_vals_def set_io_mode_def and_then_def
        cap_call_def lock_set_def out_set_def set_raw_vals_def source_voltage_set_def
        narrow_wrapper_def demo_wrapper_def demo_gate_def reliable_def all_broken_def
        Numbers_def)

text \<open>
  C6. For every value that is none of the six members, setting io\_mode through the wrapper
  fails with the invalid-argument error in the very state it was called in: no capability
  was called, the lock was not cleared and the stored io\_mode is unchanged.
\<close>

theorem io_mode_set_rejects_nonmember:
  assumes "\<forall>m. val \<noteq> Member m"
  shows "io_mode_set val ws = Inl (ValueError, ws)"
  using assms by (auto simp add: io_mode_set_def io_mode_vals_def)

theorem io_mode_set_rejects_nonmember_witness:
  "io_mode_set (NonMember ''TRISTATE'') (demo_wrapper, all_at 0) =
     Inl (ValueError, (demo_wrapper, all_at 0))"
  using io_mode_set_rejects_nonmember [of "NonMember ''TRISTATE''" "(demo_wrapper, all_at 0)"]
  by simp

text \<open>
  C7. For every transition whose capability call fails, the failure reaches the caller as
  it is, in a state where the lock has been cleared and stays cleared, nothing further has
  been done and the stored io\_mode is the old one. A transition that returns normally had
  its capability call succeed, and whenever a transition fails, at the capability call or
  at the write after it, the stored io\_mode is the old one.
\<close>

theorem io_mode_set_capability_failure:
  "(\<not> cap_ok w (spec_capability m) \<longrightarrow>
      io_mode_set (Member m) (w, s) =
        Inl (ChannelError (spec_capability m),
             (w\<lparr>gate := (gate w)\<lparr>lock := False\<rparr>, trace := trace w @ [LockSet False]\<rparr>, s))) \<and>
   (\<not> isl (io_mode_set (Member m) (w, s)) \<longrightarrow> cap_ok w (spec_capability m)) \<and>
   (\<forall>e w' s'. io_mode_set (Member m) (w, s) = Inl (e, (w', s')) \<longrightarrow>
      io_mode (gate w') = io_mode (gate w))"
  by (cases m)
     (auto simp add: io_mode_set_def io_mode_vals_def set_io_mode_def and_then_Inr and_then_Inl
        cap_call_def lock_set_def out_set_def store_io_mode_def set_raw_vals_def
        source_voltage_set_def split: if_splits)

text \<open>
  A locked gate in output mode is set to LOW on a channel whose \<open>dac\<close> fails; the
  example gate is set to GND and to HIGH on a channel without failures.
\<close>

theorem io_mode_set_capability_failure_witness:
  "\<not> cap_ok (demo_wrapper\<lparr>cap_ok := dac_broken\<rparr>) (spec_capability LOW) \<and>
   io_mode_set (Member LOW)
       (demo_wrapper\<lparr>gate := demo_gate\<lparr>lock := True\<rparr>, cap_ok := dac_broken\<rparr>, all_at 1) =
     Inl (ChannelError Dac,
          (demo_wrapper\<lparr>gate := demo_gate\<lparr>lock := False\<rparr>, cap_ok := dac_broken,
             trace := [LockSet False]\<rparr>,
           all_at 1)) \<and>
   \<not> isl (io_mode_set (Member GND) (demo_wrapper, all_at 1)) \<and>
   cap_ok demo_wrapper (spec_capability GND) \<and>
   io_mode_set (Member HIGH) (narrow_wrapper, all_at 0) =
     Inl (ValueError, (narrow_wrapper\<lparr>trace := [LockSet False, CapCall Dac]\<rparr>, all_at 0)) \<and>
   io_mode (gate (narrow_wrapper\<lparr>trace := [LockSet False, CapCall Dac]\<rparr>)) =
     io_mode (gate narrow_wrapper)"
  using io_mode_set_capability_failure
          [of "demo_wrapper\<lparr>gate := demo_gate\<lparr>lock := True\<rparr>, cap_ok := dac_broken\<rparr>" LOW "all_at 1"]
        io_mode_set_capability_failure [of demo_wrapper GND "all_at 1"]
        io_mode_set_capability_failure [of narrow_wrapper HIGH "all_at 0"]
  by (simp add: io_mode_set_def io_mode_vals_def set_io_mode_def and_then_def
        cap_call_def lock_set_def out_set_def store_io_mode_def set_raw_vals_def
        source_voltage_set_def narrow_wrapper_def demo_wrapper_def demo_gate_def
        dac_broken_def reliable_def Numbers_def)

subsection \<open>Device-wide levels\<close>

lemma v_high_fst_set_v_high: "v_high (fst (set_v_high X gs)) = X"
  by (simp add: set_v_high_def Let_def)

lemma v_low_fst_set_v_low: "v_low (fst (set_v_low X gs)) = X"
  by (simp add: set_v_low_def Let_def)

lemma each_v_high_accepted:
  "\<forall>w \<in> set ws. voltage_vals w X \<and> voltage_vals w (v_low (gate w)) \<Longrightarrow>
   each_v_high X ws s = Inr (spec_fanout_high X ws s)"
proof (induction ws arbitrary: s)
  case Nil
  show ?case by simp
next
  case (Cons w ws)
  then show ?case
    by (simp add: v_high_set_def set_v_high_vals_accepted split_beta)
qed

lemma each_v_low_accepted:
  "\<forall>w \<in> set ws. voltage_vals w X \<and> voltage_vals w (v_high (gate w)) \<Longrightarrow>
   each_v_low X ws s = Inr (spec_fanout_low X ws s)"
proof (induction ws arbitrary: s)
  case Nil
  show ?case by simp
next
  case (Cons w ws)
  then show ?case
    by (simp add: v_low_set_def set_v_low_vals_accepted split_beta)
qed

lemma spec_fanout_high_levels:
  "map (v_high \<circ> gate) (fst (spec_fanout_high X ws s)) = replicate (length ws) X"
  by (induction ws arbitrary: s) (simp_all add: split_beta v_high_fst_set_v_high)

lemma spec_fanout_low_levels:
  "map (v_low \<circ> gate) (fst (spec_fanout_low X ws s)) = replicate (length ws) X"
  by (induction ws arbitrary: s) (simp_all add: split_beta v_low_fst_set_v_low)

text \<open>
  C8, amended. For every device and every value \<open>X\<close> such that the voltage validator of
  each registered wrapper accepts \<open>X\<close> and the gate's other level (\<open>v_low\<close> when
  \<open>v_high\<close> is set, \<open>v_high\<close> when \<open>v_low\<close> is set; the reapply may write it),
  setting the device-wide \<open>v_high\<close> to \<open>X\<close> returns normally; the wrappers and sources
  it leaves are those of running each gate's \<open>v_high\<close> setter in registration order;
  every registered gate's \<open>v_high\<close> is then \<open>X\<close>, and so is the device's stored
  \<open>v_high\<close>. The same holds for \<open>v_low\<close>.
\<close>

theorem update_levels_fanout:
  "((\<forall>w \<in> set (digital_gates d). voltage_vals w X \<and> voltage_vals w (v_low (gate w))) \<longrightarrow>
      update_vhigh X (d, s) =
        Inr (d\<lparr>digital_gates := fst (spec_fanout_high X (digital_gates d) s), dev_v_high := X\<rparr>,
             snd (spec_fanout_high X (digital_gates d) s)) \<and>
      map (v_high \<circ> gate) (fst (spec_fanout_high X (digital_gates d) s)) =
        replicate (length (digital_gates d)) X) \<and>
   ((\<forall>w \<in> set (digital_gates d). voltage_vals w X \<and> voltage_vals w (v_high (gate w))) \<longrightarrow>
      update_vlow X (d, s) =
        Inr (d\<lparr>digital_gates := fst (spec_fanout_low X (digital_gates d) s), dev_v_low := X\<rparr>,
             snd (spec_fanout_low X (digital_gates d) s)) \<and>
      map (v_low \<circ> gate) (fst (spec_fanout_low X (digital_gates d) s)) =
        replicate (length (digital_gates d)) X)"
proof -
  have high: "update_vhigh X (d, s) =
           Inr (d\<lparr>digital_gates := fst (spec_fanout_high X (digital_gates d) s), dev_v_high := X\<rparr>,
                snd (spec_fanout_high X (digital_gates d) s))"
    if "\<forall>w \<in> set (digital_gates d). voltage_vals w X \<and> voltage_vals w (v_low (gate w))"
    using that by (simp add: update_vhigh_def each_v_high_accepted split_beta)
  have low: "update_vlow X (d, s) =
           Inr (d\<lparr>digital_gates := fst (spec_fanout_low X (digital_gates d) s), dev_v_low := X\<rparr>,
                snd (spec_fanout_low X (digital_gates d) s))"
    if "\<forall>w \<in> set (digital_gates d). voltage_vals w X \<and> voltage_vals w (v_high (gate w))"
    using that by (simp add: update_vlow_def each_v_low_accepted split_beta)
  show ?thesis
    using high low by (simp add: spec_fanout_high_levels spec_fanout_low_levels)
qed

text \<open>
  The example device with source 0 at 1 volt (its gate reads HIGH) and source 1 at 0 volts:
  the device-wide \<open>v_high\<close> is set to 2.5, and the device-wide \<open>v_low\<close> to -1.
\<close>

theorem update_levels_fanout_witness:
  "update_vhigh 2.5 (demo_device, (all_at 0)(0 := 1)) =
     Inr (demo_device\<lparr>digital_gates :=
            [demo_wrapper\<lparr>gate := demo_gate\<lparr>v_high := 2.5\<rparr>\<rparr>,
             demo_wrapper\<lparr>gate := demo_gate\<lparr>source := 1, v_high := 2.5, lock := True\<rparr>\<rparr>],
            dev_v_high := 2.5\<rparr>,
          (all_at 0)(0 := 2.5, 1 := 0)) \<and>
   update_vlow (- 1) (demo_device, (all_at 0)(0 := 1)) =
     Inr (demo_device\<lparr>digital_gates :=
            [demo_wrapper\<lparr>gate := demo_gate\<lparr>v_low := - 1\<rparr>\<rparr>,
             demo_wrapper\<lparr>gate := demo_gate\<lparr>source := 1, v_low := - 1, lock := True\<rparr>\<rparr>],
            dev_v_low := - 1\<rparr>,
          (all_at 0)(0 := 1, 1 := 1))"
  using update_levels_fanout [of demo_device "2.5" "(all_at 0)(0 := 1)"]
        update_levels_fanout [of demo_device "- 1" "(all_at 0)(0 := 1)"]
  by (simp add: demo_device_def demo_wrapper_def demo_gate_def Numbers_def all_at_def
        set_v_high_def set_v_low_def OUTPUT_MODES_def get_raw_def set_raw_def Let_def
        fun_upd_twist)

text \<open>
  C8 as stated speaks of every value. The wrappers of the example device accept voltages
  from -5 to 5 only: setting the device-wide \<open>v_high\<close> to 10 fails at the first wrapper
  with the invalid-argument error, and every gate and the device keep the level 1.
  A device whose only gate is locked, has \<open>v_high\<close> 1.8 and sits at 0.5 volts behind the
  channel that accepts -1 to 1: setting the device-wide \<open>v_low\<close> to 0.1 passes the
  validator, but the reapply reads UNDEFINED and writes 1.8, which the channel refuses;
  the gate is left with \<open>v_low\<close> 0.1 and unlocked, and the device's \<open>v_low\<close> is still 0.
\<close>

theorem update_vhigh_rejected:
  "update_vhigh 10 (demo_device, all_at 0) = Inl (ValueError, (demo_device, all_at 0)) \<and>
   dev_v_high demo_device = 1 \<and>
   map (v_high \<circ> gate) (digital_gates demo_device) = [1, 1] \<and>
   update_vlow 0.1
       (demo_device\<lparr>digital_gates := [narrow_wrapper\<lparr>gate := demo_gate\<lparr>v_high := 1.8, lock := True\<rparr>\<rparr>]\<rparr>,
        all_at 0.5) =
     Inl (ValueError,
          (demo_device\<lparr>digital_gates := [narrow_wrapper\<lparr>gate := demo_gate\<lparr>v_high := 1.8, v_low := 0.1\<rparr>\<rparr>]\<rparr>,
           all_at 0.5))"
  by (simp add: update_vhigh_def update_vlow_def v_high_set_def v_low_set_def
        set_v_low_vals_def set_raw_vals_def source_voltage_set_def get_raw_def
        OUTPUT_MODES_def Let_def all_at_def
        demo_device_def demo_wrapper_def narrow_wrapper_def demo_gate_def Numbers_def)

end
